theory Spec2Isabelle
  imports Main
begin

section \<open>Smoke-test fixtures of base.py\<close>

text \<open>
  The module \<open>base.py\<close> defines three fixture classes, \<open>SmokeTest\<close>,
  \<open>UserSmokeTest\<close> and \<open>ProjectSmokeTest\<close>, each with a \<open>setUp\<close> and a
  \<open>tearDown\<close>, the navigation helper \<open>goto\<close> and the log reader \<open>get_log\<close>.
  A test instance is modelled as a record of its attributes; an attribute that has not
  been assigned is \<open>None\<close>, and reading it raises \<open>AttributeError\<close>. Every call the
  instance makes on a collaborator (the module \<open>util\<close>, the WebDriver handle) is
  appended to the field \<open>calls\<close>, in the order the calls are made, before the
  collaborator answers. Exceptions are values of type \<open>error\<close>.
\<close>

subsection \<open>Errors, handles and the record of calls\<close>

datatype error =
    AttributeError string
  | KeyError string
  | IndexError
  | ValueError
  | NoSuchElementException string
  | CollaboratorError string

text \<open>A WebDriver handle is known by its session number only.\<close>

type_synonym webdriver = nat

type_synonym kwargs = "(string \<times> string) list"

text \<open>
  The calls a fixture can make. \<open>DriverQuit\<close> is \<open>WebDriver.quit()\<close>, which ends
  the whole browser session; \<open>DriverClose\<close> is \<open>WebDriver.close()\<close>, which closes
  the current window only; \<open>DriverGet\<close> is \<open>WebDriver.get(url)\<close>. \<open>TestMethod\<close>
  marks the run of the test method itself.
\<close>

datatype call =
    LaunchDriver "kwargs option"
  | CreateUser webdriver
  | Login webdriver string string
  | Logout webdriver
  | CreateProject webdriver
  | GotoProject webdriver
  | DeleteProject webdriver
  | DriverGet webdriver string
  | DriverQuit webdriver
  | DriverClose webdriver
  | TestMethod

record fixture =
  driver_opts :: "kwargs option"
  driver :: "webdriver option"
  user_data :: "(string \<times> string) list option"
  project_url :: "string option"
  site_root :: "string option"
  calls :: "call list"

text \<open>
  The module \<open>util\<close> is imported by \<open>base.py\<close> and is not part of the sources at
  hand, so its functions are parameters: each answers with a value or raises.
  \<open>launch_driver\<close> receives \<open>None\<close> when it is called without arguments and
  the keyword arguments otherwise.
\<close>

record util =
  launch_driver :: "kwargs option \<Rightarrow> error + webdriver"
  create_user :: "webdriver \<Rightarrow> error + (string \<times> string) list"
  login :: "webdriver \<Rightarrow> string \<Rightarrow> string \<Rightarrow> error + unit"
  logout :: "webdriver \<Rightarrow> error + unit"
  create_project :: "webdriver \<Rightarrow> error + string"
  goto_project :: "webdriver \<Rightarrow> error + unit"
  delete_project :: "webdriver \<Rightarrow> error + unit"

definition record_call :: "call \<Rightarrow> fixture \<Rightarrow> fixture" where
  "record_call c self = self\<lparr>calls := calls self @ [c]\<rparr>"

subsection \<open>Navigation: \<open>ProjectSmokeTest.goto\<close>\<close>

text \<open>Python's \<open>sep.join(parts)\<close>.\<close>

fun join :: "string \<Rightarrow> string list \<Rightarrow> string" where
  "join sep [] = []"
| "join sep [x] = x"
| "join sep (x # y # ys) = x @ sep @ join sep (y # ys)"

text \<open>
  The dictionary \<open>build_path\<close> of \<open>goto\<close>: four keys, each bound to a lambda
  without parameters that is evaluated only when it is called. \<open>project_url[:-1]\<close>
  is \<open>butlast\<close>; \<open>args[0]\<close> raises \<open>IndexError\<close> on the empty tuple. Inside
  a list display the elements are evaluated from left to right, so in the rule of
  \<open>file\<close> the attribute \<open>project_url\<close> is read before \<open>args[0]\<close>.
\<close>

definition build_path :: "fixture \<Rightarrow> string list \<Rightarrow> (string \<times> (unit \<Rightarrow> error + string)) list" where
  "build_path self args =
    [(''dashboard'', \<lambda>_.
        (case project_url self of
           None \<Rightarrow> Inl (AttributeError ''project_url'')
         | Some url \<Rightarrow> Inr url)),
     (''files'', \<lambda>_.
        (case project_url self of
           None \<Rightarrow> Inl (AttributeError ''project_url'')
         | Some url \<Rightarrow> Inr (join ''/'' [butlast url, ''files'']))),
     (''file'', \<lambda>_.
        (case project_url self of
           None \<Rightarrow> Inl (AttributeError ''project_url'')
         | Some url \<Rightarrow>
            (case args of
               [] \<Rightarrow> Inl IndexError
             | a # _ \<Rightarrow> Inr (join ''/'' [butlast url, ''files'', a])))),
     (''user-dashboard'', \<lambda>_.
        (case site_root self of
           None \<Rightarrow> Inl (AttributeError ''site_root'')
         | Some root \<Rightarrow> Inr (join ''/'' [root, ''dashboard''])))]"

text \<open>
  \<open>self.driver.get(url=build_path[page]())\<close>: the callee \<open>self.driver.get\<close> is
  evaluated first, then the argument: the lookup (\<open>KeyError\<close> naming the page when
  the key is absent), then the call of the lambda found; the navigation is issued last.
\<close>

definition goto :: "fixture \<Rightarrow> string \<Rightarrow> string list \<Rightarrow> (error + unit) \<times> fixture" where
  "goto self page args =
    (case driver self of
       None \<Rightarrow> (Inl (AttributeError ''driver''), self)
     | Some d \<Rightarrow>
        (case map_of (build_path self args) page of
           None \<Rightarrow> (Inl (KeyError page), self)
         | Some rule \<Rightarrow>
            (case rule () of
               Inl e \<Rightarrow> (Inl e, self)
             | Inr url \<Rightarrow> (Inr (), record_call (DriverGet d url) self))))"

subsection \<open>Fixture layers: \<open>setUp\<close> and \<open>tearDown\<close>\<close>

text \<open>
  \<open>SmokeTest.setUp\<close>: \<open>util.launch_driver\<close> is called with the keyword arguments
  of \<open>driver_opts\<close> when the instance has that attribute and without arguments
  otherwise; the handle returned is stored in \<open>driver\<close>.
\<close>

definition SmokeTest_setUp :: "util \<Rightarrow> fixture \<Rightarrow> (error + unit) \<times> fixture" where
  "SmokeTest_setUp u self =
    (case driver_opts self of
       Some opts \<Rightarrow>
        (case launch_driver u (Some opts) of
           Inl e \<Rightarrow> (Inl e, record_call (LaunchDriver (Some opts)) self)
         | Inr d \<Rightarrow> (Inr (), (record_call (LaunchDriver (Some opts)) self)\<lparr>driver := Some d\<rparr>))
     | None \<Rightarrow>
        (case launch_driver u None of
           Inl e \<Rightarrow> (Inl e, record_call (LaunchDriver None) self)
         | Inr d \<Rightarrow> (Inr (), (record_call (LaunchDriver None) self)\<lparr>driver := Some d\<rparr>)))"

text \<open>
  \<open>SmokeTest.tearDown\<close>: \<open>self.driver.quit()\<close>. The WebDriver methods \<open>quit\<close>
  and \<open>get\<close> are taken to return normally.
\<close>

definition SmokeTest_tearDown :: "fixture \<Rightarrow> (error + unit) \<times> fixture" where
  "SmokeTest_tearDown self =
    (case driver self of
       None \<Rightarrow> (Inl (AttributeError ''driver''), self)
     | Some d \<Rightarrow> (Inr (), record_call (DriverQuit d) self))"

text \<open>
  \<open>UserSmokeTest.setUp\<close>: the parent's \<open>setUp\<close>, then \<open>util.create_user\<close>, whose
  answer is stored in \<open>user_data\<close>, then \<open>util.login\<close> with the entries
  \<open>username\<close> and \<open>password\<close> of that dictionary. No statement of the method
  catches an exception: the first one raised leaves the method at once.
\<close>

definition UserSmokeTest_setUp :: "util \<Rightarrow> fixture \<Rightarrow> (error + unit) \<times> fixture" where
  "UserSmokeTest_setUp u self =
    (case SmokeTest_setUp u self of
       (Inl e, s1) \<Rightarrow> (Inl e, s1)
     | (Inr _, s1) \<Rightarrow>
        (case driver s1 of
           None \<Rightarrow> (Inl (AttributeError ''driver''), s1)
         | Some d \<Rightarrow>
            (case create_user u d of
               Inl e \<Rightarrow> (Inl e, record_call (CreateUser d) s1)
             | Inr ud \<Rightarrow>
                (case map_of ud ''username'' of
                   None \<Rightarrow> (Inl (KeyError ''username''),
                             (record_call (CreateUser d) s1)\<lparr>user_data := Some ud\<rparr>)
                 | Some name \<Rightarrow>
                    (case map_of ud ''password'' of
                       None \<Rightarrow> (Inl (KeyError ''password''),
                                 (record_call (CreateUser d) s1)\<lparr>user_data := Some ud\<rparr>)
                     | Some pw \<Rightarrow>
                        (case login u d name pw of
                           Inl e \<Rightarrow> (Inl e,
                              record_call (Login d name pw)
                                ((record_call (CreateUser d) s1)\<lparr>user_data := Some ud\<rparr>))
                         | Inr _ \<Rightarrow> (Inr (),
                              record_call (Login d name pw)
                                ((record_call (CreateUser d) s1)\<lparr>user_data := Some ud\<rparr>))))))))"

text \<open>\<open>UserSmokeTest.tearDown\<close>: \<open>util.logout\<close>, then the parent's \<open>tearDown\<close>.\<close>

definition UserSmokeTest_tearDown :: "util \<Rightarrow> fixture \<Rightarrow> (error + unit) \<times> fixture" where
  "UserSmokeTest_tearDown u self =
    (case driver self of
       None \<Rightarrow> (Inl (AttributeError ''driver''), self)
     | Some d \<Rightarrow>
        (case logout u d of
           Inl e \<Rightarrow> (Inl e, record_call (Logout d) self)
         | Inr _ \<Rightarrow> SmokeTest_tearDown (record_call (Logout d) self)))"

text \<open>
  \<open>ProjectSmokeTest.setUp\<close>: the parent's \<open>setUp\<close>, then \<open>util.create_project\<close>,
  whose answer is stored in \<open>project_url\<close>, then \<open>util.goto_project\<close>.
\<close>

definition ProjectSmokeTest_setUp :: "util \<Rightarrow> fixture \<Rightarrow> (error + unit) \<times> fixture" where
  "ProjectSmokeTest_setUp u self =
    (case UserSmokeTest_setUp u self of
       (Inl e, s1) \<Rightarrow> (Inl e, s1)
     | (Inr _, s1) \<Rightarrow>
        (case driver s1 of
           None \<Rightarrow> (Inl (AttributeError ''driver''), s1)
         | Some d \<Rightarrow>
            (case create_project u d of
               Inl e \<Rightarrow> (Inl e, record_call (CreateProject d) s1)
             | Inr url \<Rightarrow>
                (case goto_project u d of
                   Inl e \<Rightarrow> (Inl e,
                      record_call (GotoProject d)
                        ((record_call (CreateProject d) s1)\<lparr>project_url := Some url\<rparr>))
                 | Inr _ \<Rightarrow> (Inr (),
                      record_call (GotoProject d)
                        ((record_call (CreateProject d) s1)\<lparr>project_url := Some url\<rparr>))))))"

text \<open>\<open>ProjectSmokeTest.tearDown\<close>: \<open>util.delete_project\<close>, then the parent's \<open>tearDown\<close>.\<close>

definition ProjectSmokeTest_tearDown :: "util \<Rightarrow> fixture \<Rightarrow> (error + unit) \<times> fixture" where
  "ProjectSmokeTest_tearDown u self =
    (case driver self of
       None \<Rightarrow> (Inl (AttributeError ''driver''), self)
     | Some d \<Rightarrow>
        (case delete_project u d of
           Inl e \<Rightarrow> (Inl e, record_call (DeleteProject d) self)
         | Inr _ \<Rightarrow> UserSmokeTest_tearDown u (record_call (DeleteProject d) self)))"

text \<open>The class of a test selects the methods that run.\<close>

datatype layer = SmokeTest | UserSmokeTest | ProjectSmokeTest

definition setUp :: "util \<Rightarrow> layer \<Rightarrow> fixture \<Rightarrow> (error + unit) \<times> fixture" where
  "setUp u l self =
    (case l of
       SmokeTest \<Rightarrow> SmokeTest_setUp u self
     | UserSmokeTest \<Rightarrow> UserSmokeTest_setUp u self
     | ProjectSmokeTest \<Rightarrow> ProjectSmokeTest_setUp u self)"

definition tearDown :: "util \<Rightarrow> layer \<Rightarrow> fixture \<Rightarrow> (error + unit) \<times> fixture" where
  "tearDown u l self =
    (case l of
       SmokeTest \<Rightarrow> SmokeTest_tearDown self
     | UserSmokeTest \<Rightarrow> UserSmokeTest_tearDown u self
     | ProjectSmokeTest \<Rightarrow> ProjectSmokeTest_tearDown u self)"

text \<open>
  The classes are written to be run by \<open>unittest\<close> (the module's docstring: a
  subclass inherits from \<open>TestCase\<close> as well). \<open>TestCase.run\<close> calls \<open>setUp\<close>;
  when \<open>setUp\<close> raises, the error is recorded and neither the test method nor
  \<open>tearDown\<close> is called; otherwise the test method is called and then
  \<open>tearDown\<close>, whether or not the test method raised. The test method is given by
  its outcome. The result is the list of errors recorded and the instance afterwards.
\<close>

definition run_test :: "util \<Rightarrow> layer \<Rightarrow> error + unit \<Rightarrow> fixture \<Rightarrow> error list \<times> fixture" where
  "run_test u l body self =
    (case setUp u l self of
       (Inl e, s1) \<Rightarrow> ([e], s1)
     | (Inr _, s1) \<Rightarrow>
        (case tearDown u l (record_call TestMethod s1) of
           (Inl e, s2) \<Rightarrow> ((case body of Inl b \<Rightarrow> [b] | Inr _ \<Rightarrow> []) @ [e], s2)
         | (Inr _, s2) \<Rightarrow> ((case body of Inl b \<Rightarrow> [b] | Inr _ \<Rightarrow> []), s2)))"

text \<open>A fresh test instance: no attribute assigned but the class attributes.\<close>

definition fresh :: "kwargs option \<Rightarrow> string option \<Rightarrow> fixture" where
  "fresh opts root =
    \<lparr>driver_opts = opts, driver = None, user_data = None, project_url = None,
     site_root = root, calls = []\<rparr>"

text \<open>Counting the sessions acquired and released, and the runs of the test method.\<close>

fun is_acquire :: "call \<Rightarrow> bool" where
  "is_acquire (LaunchDriver _) = True"
| "is_acquire _ = False"

fun is_release :: "call \<Rightarrow> bool" where
  "is_release (DriverQuit _) = True"
| "is_release _ = False"

definition acquires :: "call list \<Rightarrow> nat" where
  "acquires cs = length (filter is_acquire cs)"

definition releases :: "call list \<Rightarrow> nat" where
  "releases cs = length (filter is_release cs)"

definition test_runs :: "call list \<Rightarrow> nat" where
  "test_runs cs = length (filter (\<lambda>c. c = TestMethod) cs)"

subsection \<open>The timestamp parser: \<open>datetime.strptime\<close> with the format of \<open>get_log\<close>\<close>

text \<open>
  \<open>get_log\<close> calls \<open>datetime.strptime(text, "%m/%d/%y %I:%M %p")\<close>. The library
  turns the format into a regular expression, one named group for each directive and
  \<open>\s+\<close> for each blank of the format, compiled with IGNORECASE:
  \<^verbatim>\<open>(?P<m>1[0-2]|0[1-9]|[1-9])/(?P<d>3[0-1]|[1-2]\d|0[1-9]|[1-9]| [1-9])/(?P<y>\d\d)\s+\<close>
  \<^verbatim>\<open>(?P<I>1[0-2]|0[1-9]|[1-9]):(?P<M>[0-5]\d|\d)\s+(?P<p>am|pm)\<close>
  It matches the expression at the start of the text, raises \<open>ValueError\<close> when there
  is no match or when text is left after the match, converts the groups, and raises
  \<open>ValueError\<close> when the day does not exist in the month. The names of the two
  halves of the day are the English ones.

  A text is a list of code points below 256. On a Python 3 string \<open>\s\<close> matches the
  characters that \<open>str.isspace\<close> accepts: below 256 these are the tab, the line
  feed, the vertical tab, the form feed, the carriage return, the four separators
  \<open>0x1C\<close> to \<open>0x1F\<close>, the space, the next-line character \<open>0x85\<close> and the
  no-break space \<open>0xA0\<close>; \<open>\d\<close> matches the decimal digits, below 256 the ten
  digits \<open>0\<close> to \<open>9\<close>; and IGNORECASE adds to the letters \<open>a\<close>, \<open>m\<close> and
  \<open>p\<close> their capitals only. Python 2 matches \<open>\s\<close> against the tab, the line
  feed, the vertical tab, the form feed, the carriage return and the space only, a part
  of the class modelled here.

  A regular expression is modelled by the list of its matches at the start of a string,
  each the text matched and the rest, in the order a backtracking matcher tries them.
\<close>

type_synonym matcher = "string \<Rightarrow> (string \<times> string) list"

definition re_char :: "(char \<Rightarrow> bool) \<Rightarrow> matcher" where
  "re_char P s = (case s of [] \<Rightarrow> [] | c # cs \<Rightarrow> if P c then [([c], cs)] else [])"

definition re_seq :: "matcher \<Rightarrow> matcher \<Rightarrow> matcher" where
  "re_seq p q s = concat (map (\<lambda>(a, r). map (\<lambda>(b, r'). (a @ b, r')) (q r)) (p s))"

definition re_alt :: "matcher \<Rightarrow> matcher \<Rightarrow> matcher" where
  "re_alt p q s = p s @ q s"

text \<open>One or more characters of a class, the longest run first.\<close>

fun re_plus :: "(char \<Rightarrow> bool) \<Rightarrow> matcher" where
  "re_plus P [] = []"
| "re_plus P (c # cs) =
     (if P c then map (\<lambda>(a, r). (c # a, r)) (re_plus P cs) @ [([c], cs)] else [])"

definition one_of :: "string \<Rightarrow> char \<Rightarrow> bool" where
  "one_of cs c = (c \<in> set cs)"

definition re_lit :: "char \<Rightarrow> matcher" where
  "re_lit c = re_char (\<lambda>x. x = c)"

definition ascii_lower :: "char \<Rightarrow> char" where
  "ascii_lower c =
    (case map_of (zip ''ABCDEFGHIJKLMNOPQRSTUVWXYZ'' ''abcdefghijklmnopqrstuvwxyz'') c of
       None \<Rightarrow> c
     | Some l \<Rightarrow> l)"

definition re_nocase :: "char \<Rightarrow> matcher" where
  "re_nocase c = re_char (\<lambda>x. ascii_lower x = c)"

definition re_digit :: matcher where
  "re_digit = re_char (one_of ''0123456789'')"

definition whitespace :: "char \<Rightarrow> bool" where
  "whitespace =
    one_of [CHR 0x09, CHR 0x0A, CHR 0x0B, CHR 0x0C, CHR 0x0D,
            CHR 0x1C, CHR 0x1D, CHR 0x1E, CHR 0x1F, CHR '' '', CHR 0x85, CHR 0xA0]"

definition re_m :: matcher where
  "re_m =
    re_alt (re_seq (re_lit CHR ''1'') (re_char (one_of ''012'')))
      (re_alt (re_seq (re_lit CHR ''0'') (re_char (one_of ''123456789'')))
        (re_char (one_of ''123456789'')))"

definition re_d :: matcher where
  "re_d =
    re_alt (re_seq (re_lit CHR ''3'') (re_char (one_of ''01'')))
      (re_alt (re_seq (re_char (one_of ''12'')) re_digit)
        (re_alt (re_seq (re_lit CHR ''0'') (re_char (one_of ''123456789'')))
          (re_alt (re_char (one_of ''123456789''))
            (re_seq (re_lit CHR '' '') (re_char (one_of ''123456789''))))))"

definition re_y :: matcher where
  "re_y = re_seq re_digit re_digit"

definition re_I :: matcher where
  "re_I =
    re_alt (re_seq (re_lit CHR ''1'') (re_char (one_of ''012'')))
      (re_alt (re_seq (re_lit CHR ''0'') (re_char (one_of ''123456789'')))
        (re_char (one_of ''123456789'')))"

definition re_M :: matcher where
  "re_M = re_alt (re_seq (re_char (one_of ''012345'')) re_digit) re_digit"

definition re_p :: matcher where
  "re_p =
    re_alt (re_seq (re_nocase CHR ''a'') (re_nocase CHR ''m''))
      (re_seq (re_nocase CHR ''p'') (re_nocase CHR ''m''))"

text \<open>
  The whole expression: every way it matches at the start of the text, as the groups
  \<open>m\<close>, \<open>d\<close>, \<open>y\<close>, \<open>I\<close>, \<open>M\<close>, \<open>p\<close> and the text left, first match first.
\<close>

definition format_regex :: "string \<Rightarrow> (string \<times> string \<times> string \<times> string \<times> string \<times> string \<times> string) list" where
  "format_regex data_string =
    [(m, d, y, h, mi, p, r11).
       (m, r1) \<leftarrow> re_m data_string,
       (s1, r2) \<leftarrow> re_lit CHR ''/'' r1,
       (d, r3) \<leftarrow> re_d r2,
       (s2, r4) \<leftarrow> re_lit CHR ''/'' r3,
       (y, r5) \<leftarrow> re_y r4,
       (w1, r6) \<leftarrow> re_plus whitespace r5,
       (h, r7) \<leftarrow> re_I r6,
       (s3, r8) \<leftarrow> re_lit CHR '':'' r7,
       (mi, r9) \<leftarrow> re_M r8,
       (w2, r10) \<leftarrow> re_plus whitespace r9,
       (p, r11) \<leftarrow> re_p r10]"

text \<open>
  \<open>int(s)\<close> on a group: decimal digits, after the whitespace at the front, which
  \<open>int\<close> strips.
\<close>

definition digit_value :: "char \<Rightarrow> int" where
  "digit_value c =
    (case map_of (zip ''0123456789'' [0, 1, 2, 3, 4, 5, 6, 7, 8, 9]) c of
       None \<Rightarrow> 0
     | Some v \<Rightarrow> v)"

definition py_int :: "string \<Rightarrow> int" where
  "py_int s = foldl (\<lambda>n c. 10 * n + digit_value c) 0 (dropWhile whitespace s)"

record datetime =
  dt_year :: int
  dt_month :: int
  dt_day :: int
  dt_hour :: int
  dt_minute :: int
  dt_second :: int

definition is_leap :: "int \<Rightarrow> bool" where
  "is_leap y = (y mod 4 = 0 \<and> (y mod 400 = 0 \<or> y mod 100 \<noteq> 0))"

definition days_in_month :: "int \<Rightarrow> int \<Rightarrow> int" where
  "days_in_month y m =
    (if m = 2 \<and> is_leap y then 29
     else [0, 31, 28, 31, 30, 31, 30, 31, 31, 30, 31, 30, 31] ! nat m)"

definition strptime :: "string \<Rightarrow> error + datetime" where
  "strptime data_string =
    (case format_regex data_string of
       [] \<Rightarrow> Inl ValueError
     | (m, d, y, h, mi, p, rest) # _ \<Rightarrow>
        if rest \<noteq> [] then Inl ValueError
        else
          (let year = (if py_int y \<le> 68 then py_int y + 2000 else py_int y + 1900);
               month = py_int m;
               day = py_int d;
               ampm = map ascii_lower p;
               hour =
                 (if ampm = [] \<or> ampm = ''am''
                  then (if py_int h = 12 then 0 else py_int h)
                  else if ampm = ''pm''
                  then (if py_int h \<noteq> 12 then py_int h + 12 else py_int h)
                  else py_int h);
               minute = py_int mi
           in if days_in_month year month < day then Inl ValueError
              else Inr \<lparr>dt_year = year, dt_month = month, dt_day = day,
                         dt_hour = hour, dt_minute = minute, dt_second = 0\<rparr>))"

subsection \<open>Reading the latest log entry: \<open>ProjectSmokeTest.get_log\<close>\<close>

text \<open>
  The document the session shows is modelled by what the selectors of \<open>get_log\<close>
  find in it. A page is the list of the elements that match \<open>div.span5 dl\<close>, in
  document order. Such an element holds the elements below it that match
  \<open>dd:nth-of-type(1)\<close>, each with its text and the \<open>a\<close> elements below it in
  document order, and the texts of the elements below it that match
  \<open>dt:nth-of-type(1)\<close>. \<open>find_element_by_css_selector\<close> answers with the first
  match and raises \<open>NoSuchElementException\<close> when there is none;
  \<open>get_attribute\<close> answers \<open>None\<close> for an attribute the element does not have.
\<close>

record web_element =
  elem_text :: string
  elem_attrs :: "(string \<times> string) list"

record dd_element =
  dd_text :: string
  dd_anchors :: "web_element list"

record dl_element =
  dl_dd :: "dd_element list"
  dl_dt :: "string list"

type_synonym page = "dl_element list"

definition get_attribute :: "web_element \<Rightarrow> string \<Rightarrow> string option" where
  "get_attribute e name = map_of (elem_attrs e) name"

definition find_element :: "string \<Rightarrow> 'a list \<Rightarrow> error + 'a" where
  "find_element css found =
    (case found of [] \<Rightarrow> Inl (NoSuchElementException css) | x # _ \<Rightarrow> Inr x)"

record log_entry =
  log_text :: string
  log_url :: "string option list"
  log_time :: datetime

text \<open>The loop \<open>for x in css_url: self.log_url.append(x.get_attribute('href'))\<close>.\<close>

fun append_hrefs :: "string option list \<Rightarrow> web_element list \<Rightarrow> string option list" where
  "append_hrefs urls [] = urls"
| "append_hrefs urls (x # xs) = append_hrefs (urls @ [get_attribute x ''href'']) xs"

definition LogEntry_init :: "dl_element \<Rightarrow> error + log_entry" where
  "LogEntry_init log_element =
    (case find_element ''dd:nth-of-type(1)'' (dl_dd log_element) of
       Inl e \<Rightarrow> Inl e
     | Inr entry_element \<Rightarrow>
        (case find_element ''dt:nth-of-type(1)'' (dl_dt log_element) of
           Inl e \<Rightarrow> Inl e
         | Inr stamp \<Rightarrow>
            (case strptime stamp of
               Inl e \<Rightarrow> Inl e
             | Inr t \<Rightarrow>
                Inr \<lparr>log_text = dd_text entry_element,
                     log_url = append_hrefs [] (dd_anchors entry_element),
                     log_time = t\<rparr>)))"

definition get_log :: "page \<Rightarrow> fixture \<Rightarrow> error + log_entry" where
  "get_log doc self =
    (case driver self of
       None \<Rightarrow> Inl (AttributeError ''driver'')
     | Some d \<Rightarrow>
        (case find_element ''div.span5 dl'' doc of
           Inl e \<Rightarrow> Inl e
         | Inr log_entry_element \<Rightarrow> LogEntry_init log_entry_element))"

subsection \<open>The stack of stages\<close>

text \<open>
  The specification describes a fixture as a stack of stages: a session, then a
  logged-in user, then a project, set up in that order and released in the reverse
  order. \<open>stages\<close> lists the stages of a layer in setup order, \<open>stage_of\<close> names
  the stage a call of \<open>setUp\<close> belongs to, and \<open>release_in_order\<close> releases a list
  of stages one after the other, stopping at the first release that raises.
\<close>

datatype stage = Session | User | Project

definition stages :: "layer \<Rightarrow> stage list" where
  "stages l =
    (case l of
       SmokeTest \<Rightarrow> [Session]
     | UserSmokeTest \<Rightarrow> [Session, User]
     | ProjectSmokeTest \<Rightarrow> [Session, User, Project])"

fun stage_of :: "call \<Rightarrow> stage option" where
  "stage_of (LaunchDriver _) = Some Session"
| "stage_of (CreateUser _) = Some User"
| "stage_of (Login _ _ _) = Some User"
| "stage_of (CreateProject _) = Some Project"
| "stage_of (GotoProject _) = Some Project"
| "stage_of _ = None"

definition release_call :: "webdriver \<Rightarrow> stage \<Rightarrow> call" where
  "release_call d st =
    (case st of Session \<Rightarrow> DriverQuit d | User \<Rightarrow> Logout d | Project \<Rightarrow> DeleteProject d)"

definition release_outcome :: "util \<Rightarrow> webdriver \<Rightarrow> stage \<Rightarrow> error + unit" where
  "release_outcome u d st =
    (case st of Session \<Rightarrow> Inr () | User \<Rightarrow> logout u d | Project \<Rightarrow> delete_project u d)"

fun release_in_order :: "util \<Rightarrow> webdriver \<Rightarrow> stage list \<Rightarrow> fixture \<Rightarrow> (error + unit) \<times> fixture" where
  "release_in_order u d [] self = (Inr (), self)"
| "release_in_order u d (st # sts) self =
    (case release_outcome u d st of
       Inl e \<Rightarrow> (Inl e, record_call (release_call d st) self)
     | Inr _ \<Rightarrow> release_in_order u d sts (record_call (release_call d st) self))"

subsection \<open>The timestamp format in the specification's words\<close>











subsection \<open>Example values\<close>

definition example_user :: "(string \<times> string) list" where
  "example_user =
    [(''username'', ''smoke@example.com''), (''password'', ''secret''),
     (''fullname'', ''Smoke Tester'')]"

text \<open>Collaborators that all succeed.\<close>

definition util_ok :: util where
  "util_ok =
    \<lparr>launch_driver = (\<lambda>_. Inr 1),
     create_user = (\<lambda>_. Inr example_user),
     login = (\<lambda>_ _ _. Inr ()),
     logout = (\<lambda>_. Inr ()),
     create_project = (\<lambda>_. Inr ''http://localhost:5000/project/abc/''),
     goto_project = (\<lambda>_. Inr ()),
     delete_project = (\<lambda>_. Inr ())\<rparr>"

text \<open>The same collaborators, with a login that raises.\<close>

definition util_login_fails :: util where
  "util_login_fails = util_ok\<lparr>login := (\<lambda>_ _ _. Inl (CollaboratorError ''login''))\<rparr>"

text \<open>The same collaborators, with a project deletion that raises.\<close>

definition util_delete_fails :: util where
  "util_delete_fails =
    util_ok\<lparr>delete_project := (\<lambda>_. Inl (CollaboratorError ''delete_project''))\<rparr>"

text \<open>A test instance after the setup of the project layer, with a site root.\<close>

definition example_fixture :: fixture where
  "example_fixture =
    \<lparr>driver_opts = None, driver = Some 1, user_data = Some example_user,
     project_url = Some ''http://localhost:5000/project/abc/'',
     site_root = Some ''http://localhost:5000'', calls = []\<rparr>"

text \<open>
  A log fragment that reads ``Created file report.csv'', with one link and the
  timestamp text ``03/14/24 02:15 PM''.
\<close>

definition example_log :: dl_element where
  "example_log =
    \<lparr>dl_dd =
       [\<lparr>dd_text = ''Created file report.csv'',
         dd_anchors =
           [\<lparr>elem_text = ''report.csv'',
             elem_attrs = [(''href'', ''/project/abc/files/report.csv'')]\<rparr>]\<rparr>],
     dl_dt = [''03/14/24 02:15 PM'']\<rparr>"

text \<open>A log fragment without links, and one whose timestamp is an ISO date.\<close>

definition example_log_no_links :: dl_element where
  "example_log_no_links =
    \<lparr>dl_dd = [\<lparr>dd_text = ''Created project'', dd_anchors = []\<rparr>],
     dl_dt = [''3/4/69 12:05 am'']\<rparr>"


section \<open>Properties\<close>

subsection \<open>Basic facts\<close>

lemma calls_record_call [simp]: "calls (record_call c s) = calls s @ [c]"
  by (simp add: record_call_def)

lemma driver_record_call [simp]: "driver (record_call c s) = driver s"
  by (simp add: record_call_def)

lemma counts_append [simp]:
  "acquires (xs @ ys) = acquires xs + acquires ys"
  "releases (xs @ ys) = releases xs + releases ys"
  "test_runs (xs @ ys) = test_runs xs + test_runs ys"
  by (simp_all add: acquires_def releases_def test_runs_def)

lemma counts_Nil [simp]:
  "acquires [] = 0" "releases [] = 0" "test_runs [] = 0"
  by (simp_all add: acquires_def releases_def test_runs_def)

lemma counts_Cons [simp]:
  "acquires (c # cs) = (if is_acquire c then 1 else 0) + acquires cs"
  "releases (c # cs) = (if is_release c then 1 else 0) + releases cs"
  "test_runs (c # cs) = (if c = TestMethod then 1 else 0) + test_runs cs"
  by (simp_all add: acquires_def releases_def test_runs_def)

lemma example_fixture_attrs:
  "driver example_fixture = Some 1"
  "project_url example_fixture = Some ''http://localhost:5000/project/abc/''"
  "site_root example_fixture = Some ''http://localhost:5000''"
  by (simp_all add: example_fixture_def)

lemma util_ok_sel:
  "launch_driver util_ok kw = Inr 1"
  "create_user util_ok d = Inr example_user"
  "login util_ok d name pw = Inr ()"
  "logout util_ok d = Inr ()"
  "create_project util_ok d = Inr ''http://localhost:5000/project/abc/''"
  "goto_project util_ok d = Inr ()"
  "delete_project util_ok d = Inr ()"
  by (simp_all add: util_ok_def)

lemma util_login_fails_sel:
  "launch_driver util_login_fails kw = Inr 1"
  "create_user util_login_fails d = Inr example_user"
  "login util_login_fails d name pw = Inl (CollaboratorError ''login'')"
  "logout util_login_fails d = Inr ()"
  by (simp_all add: util_login_fails_def util_ok_def)

lemma util_delete_fails_sel:
  "launch_driver util_delete_fails kw = Inr 1"
  "create_user util_delete_fails d = Inr example_user"
  "login util_delete_fails d name pw = Inr ()"
  "logout util_delete_fails d = Inr ()"
  "create_project util_delete_fails d = Inr ''http://localhost:5000/project/abc/''"
  "goto_project util_delete_fails d = Inr ()"
  "delete_project util_delete_fails d = Inl (CollaboratorError ''delete_project'')"
  by (simp_all add: util_delete_fails_def util_ok_def)

text \<open>The three example runs of \<open>setUp\<close> on a fresh instance.\<close>

lemma setUp_util_ok:
  "setUp util_ok ProjectSmokeTest (fresh None None) =
    (Inr (), \<lparr>driver_opts = None, driver = Some 1, user_data = Some example_user,
       project_url = Some ''http://localhost:5000/project/abc/'', site_root = None,
       calls = [LaunchDriver None, CreateUser 1, Login 1 ''smoke@example.com'' ''secret'',
                CreateProject 1, GotoProject 1]\<rparr>)"
  by (simp add: setUp_def ProjectSmokeTest_setUp_def UserSmokeTest_setUp_def SmokeTest_setUp_def
      fresh_def util_ok_sel example_user_def record_call_def)

lemma setUp_util_delete_fails:
  "setUp util_delete_fails ProjectSmokeTest (fresh None None) =
    (Inr (), \<lparr>driver_opts = None, driver = Some 1, user_data = Some example_user,
       project_url = Some ''http://localhost:5000/project/abc/'', site_root = None,
       calls = [LaunchDriver None, CreateUser 1, Login 1 ''smoke@example.com'' ''secret'',
                CreateProject 1, GotoProject 1]\<rparr>)"
  by (simp add: setUp_def ProjectSmokeTest_setUp_def UserSmokeTest_setUp_def SmokeTest_setUp_def
      fresh_def util_delete_fails_sel example_user_def record_call_def)

lemma setUp_util_login_fails:
  "setUp util_login_fails UserSmokeTest (fresh None None) =
    (Inl (CollaboratorError ''login''),
     \<lparr>driver_opts = None, driver = Some 1, user_data = Some example_user,
       project_url = None, site_root = None,
       calls = [LaunchDriver None, CreateUser 1, Login 1 ''smoke@example.com'' ''secret'']\<rparr>)"
  by (simp add: setUp_def UserSmokeTest_setUp_def SmokeTest_setUp_def
      fresh_def util_login_fails_sel example_user_def record_call_def)

subsection \<open>What \<open>setUp\<close> and \<open>tearDown\<close> add to the record of calls\<close>

lemma SmokeTest_setUp_counts:
  "acquires (calls (snd (SmokeTest_setUp u s))) = acquires (calls s) + 1"
  "releases (calls (snd (SmokeTest_setUp u s))) = releases (calls s)"
  "test_runs (calls (snd (SmokeTest_setUp u s))) = test_runs (calls s)"
  by (simp_all add: SmokeTest_setUp_def split: option.split sum.split)

lemma UserSmokeTest_setUp_counts:
  "acquires (calls (snd (UserSmokeTest_setUp u s))) = acquires (calls s) + 1"
  "releases (calls (snd (UserSmokeTest_setUp u s))) = releases (calls s)"
  "test_runs (calls (snd (UserSmokeTest_setUp u s))) = test_runs (calls s)"
  using SmokeTest_setUp_counts [of u s]
  by (auto simp add: UserSmokeTest_setUp_def split: option.split sum.split prod.split)

lemma ProjectSmokeTest_setUp_counts:
  "acquires (calls (snd (ProjectSmokeTest_setUp u s))) = acquires (calls s) + 1"
  "releases (calls (snd (ProjectSmokeTest_setUp u s))) = releases (calls s)"
  "test_runs (calls (snd (ProjectSmokeTest_setUp u s))) = test_runs (calls s)"
  using UserSmokeTest_setUp_counts [of u s]
  by (auto simp add: ProjectSmokeTest_setUp_def split: option.split sum.split prod.split)

lemma setUp_counts:
  "acquires (calls (snd (setUp u l s))) = acquires (calls s) + 1"
  "releases (calls (snd (setUp u l s))) = releases (calls s)"
  "test_runs (calls (snd (setUp u l s))) = test_runs (calls s)"
  by (simp_all add: setUp_def SmokeTest_setUp_counts UserSmokeTest_setUp_counts
      ProjectSmokeTest_setUp_counts split: layer.split)

lemma SmokeTest_tearDown_counts:
  "fst (SmokeTest_tearDown s) = Inr () \<Longrightarrow>
     acquires (calls (snd (SmokeTest_tearDown s))) = acquires (calls s)
   \<and> releases (calls (snd (SmokeTest_tearDown s))) = releases (calls s) + 1
   \<and> test_runs (calls (snd (SmokeTest_tearDown s))) = test_runs (calls s)"
  by (simp add: SmokeTest_tearDown_def split: option.splits)

lemma UserSmokeTest_tearDown_counts:
  "fst (UserSmokeTest_tearDown u s) = Inr () \<Longrightarrow>
     acquires (calls (snd (UserSmokeTest_tearDown u s))) = acquires (calls s)
   \<and> releases (calls (snd (UserSmokeTest_tearDown u s))) = releases (calls s) + 1
   \<and> test_runs (calls (snd (UserSmokeTest_tearDown u s))) = test_runs (calls s)"
  using SmokeTest_tearDown_counts
  by (fastforce simp add: UserSmokeTest_tearDown_def split: option.splits sum.splits)

lemma ProjectSmokeTest_tearDown_counts:
  "fst (ProjectSmokeTest_tearDown u s) = Inr () \<Longrightarrow>
     acquires (calls (snd (ProjectSmokeTest_tearDown u s))) = acquires (calls s)
   \<and> releases (calls (snd (ProjectSmokeTest_tearDown u s))) = releases (calls s) + 1
   \<and> test_runs (calls (snd (ProjectSmokeTest_tearDown u s))) = test_runs (calls s)"
  using UserSmokeTest_tearDown_counts
  by (fastforce simp add: ProjectSmokeTest_tearDown_def split: option.splits sum.splits)

lemma tearDown_counts:
  "fst (tearDown u l s) = Inr () \<Longrightarrow>
     acquires (calls (snd (tearDown u l s))) = acquires (calls s)
   \<and> releases (calls (snd (tearDown u l s))) = releases (calls s) + 1
   \<and> test_runs (calls (snd (tearDown u l s))) = test_runs (calls s)"
  by (cases l)
    (simp_all add: tearDown_def SmokeTest_tearDown_counts UserSmokeTest_tearDown_counts
      ProjectSmokeTest_tearDown_counts)

text \<open>A \<open>setUp\<close> that returns normally has made the calls of its stages, in order.\<close>

lemma SmokeTest_setUp_ok:
  "SmokeTest_setUp u s = (Inr (), s1) \<Longrightarrow>
   \<exists>d. driver s1 = Some d \<and> calls s1 = calls s @ [LaunchDriver (driver_opts s)]"
  by (auto simp add: SmokeTest_setUp_def split: option.splits sum.splits)

lemma UserSmokeTest_setUp_ok:
  "UserSmokeTest_setUp u s = (Inr (), s1) \<Longrightarrow>
   \<exists>d name pw. driver s1 = Some d \<and>
     calls s1 = calls s @ [LaunchDriver (driver_opts s), CreateUser d, Login d name pw]"
  by (auto simp add: UserSmokeTest_setUp_def split: option.splits sum.splits prod.splits
      dest!: SmokeTest_setUp_ok)

lemma ProjectSmokeTest_setUp_ok:
  "ProjectSmokeTest_setUp u s = (Inr (), s1) \<Longrightarrow>
   \<exists>d name pw. driver s1 = Some d \<and>
     calls s1 = calls s @ [LaunchDriver (driver_opts s), CreateUser d, Login d name pw,
        CreateProject d, GotoProject d]"
  by (auto simp add: ProjectSmokeTest_setUp_def split: option.splits sum.splits prod.splits
      dest!: UserSmokeTest_setUp_ok)

lemma setUp_stage_order:
  assumes "setUp u l s = (Inr (), s1)"
  shows "\<exists>d. driver s1 = Some d \<and>
     remdups_adj (map stage_of (drop (length (calls s)) (calls s1))) = map Some (stages l)"
proof (cases l)
  case SmokeTest
  with assms SmokeTest_setUp_ok [of u s s1] show ?thesis
    by (auto simp add: setUp_def stages_def)
next
  case UserSmokeTest
  with assms UserSmokeTest_setUp_ok [of u s s1] show ?thesis
    by (auto simp add: setUp_def stages_def)
next
  case ProjectSmokeTest
  with assms ProjectSmokeTest_setUp_ok [of u s s1] show ?thesis
    by (auto simp add: setUp_def stages_def)
qed

text \<open>The chain of \<open>tearDown\<close> methods releases the stack of stages from the top.\<close>

lemma tearDown_release_in_order:
  "driver self = Some d \<Longrightarrow> tearDown u l self = release_in_order u d (rev (stages l)) self"
  by (cases l)
    (simp_all add: tearDown_def stages_def ProjectSmokeTest_tearDown_def
      UserSmokeTest_tearDown_def SmokeTest_tearDown_def release_call_def release_outcome_def
      split: sum.split)

lemma release_in_order_all:
  "list_all (\<lambda>st. release_outcome u d st = Inr ()) sts \<Longrightarrow>
   release_in_order u d sts self =
     (Inr (), self\<lparr>calls := calls self @ map (release_call d) sts\<rparr>)"
  by (induction sts arbitrary: self) (simp_all add: record_call_def)

lemma tearDown_ends_with_quit:
  "driver self = Some d \<Longrightarrow> fst (tearDown u l self) = Inr () \<Longrightarrow>
   last (calls (snd (tearDown u l self))) = DriverQuit d"
  by (cases l)
    (auto simp add: tearDown_def ProjectSmokeTest_tearDown_def UserSmokeTest_tearDown_def
      SmokeTest_tearDown_def split: sum.splits)

text \<open>No method of the fixtures calls \<open>WebDriver.close()\<close>.\<close>

lemma SmokeTest_setUp_no_close:
  "(DriverClose x \<in> set (calls (snd (SmokeTest_setUp u s)))) = (DriverClose x \<in> set (calls s))"
  by (simp add: SmokeTest_setUp_def split: option.split sum.split)

lemma UserSmokeTest_setUp_no_close:
  "(DriverClose x \<in> set (calls (snd (UserSmokeTest_setUp u s)))) = (DriverClose x \<in> set (calls s))"
  using SmokeTest_setUp_no_close [of x u s]
  by (auto simp add: UserSmokeTest_setUp_def split: option.split sum.split prod.split)

lemma ProjectSmokeTest_setUp_no_close:
  "(DriverClose x \<in> set (calls (snd (ProjectSmokeTest_setUp u s)))) = (DriverClose x \<in> set (calls s))"
  using UserSmokeTest_setUp_no_close [of x u s]
  by (auto simp add: ProjectSmokeTest_setUp_def split: option.split sum.split prod.split)

lemma setUp_no_close:
  "(DriverClose x \<in> set (calls (snd (setUp u l s)))) = (DriverClose x \<in> set (calls s))"
  by (simp add: setUp_def SmokeTest_setUp_no_close UserSmokeTest_setUp_no_close
      ProjectSmokeTest_setUp_no_close split: layer.split)

lemma tearDown_no_close:
  "(DriverClose x \<in> set (calls (snd (tearDown u l s)))) = (DriverClose x \<in> set (calls s))"
  by (simp add: tearDown_def ProjectSmokeTest_tearDown_def UserSmokeTest_tearDown_def
      SmokeTest_tearDown_def split: layer.split option.split sum.split)

lemma run_test_no_close:
  "(DriverClose x \<in> set (calls (snd (run_test u l body s)))) = (DriverClose x \<in> set (calls s))"
proof (cases "setUp u l s")
  case (Pair r s1)
  with setUp_no_close [of x u l s]
  have s1: "(DriverClose x \<in> set (calls s1)) = (DriverClose x \<in> set (calls s))"
    by simp
  show ?thesis
  proof (cases r)
    case (Inl e)
    with Pair s1 show ?thesis by (simp add: run_test_def)
  next
    case (Inr y)
    with Pair have "snd (run_test u l body s) = snd (tearDown u l (record_call TestMethod s1))"
      by (simp add: run_test_def split: prod.split sum.split)
    with s1 tearDown_no_close [of x u l "record_call TestMethod s1"] show ?thesis
      by simp
  qed
qed

subsection \<open>The regular expression of the timestamp format\<close>





















lemma strptime_example:
  "strptime ''03/14/24 02:15 PM'' =
     Inr \<lparr>dt_year = 2024, dt_month = 3, dt_day = 14, dt_hour = 14, dt_minute = 15,
          dt_second = 0\<rparr>"
  by code_simp

lemma strptime_example_am:
  "strptime ''3/4/69 12:05 am'' =
     Inr \<lparr>dt_year = 1969, dt_month = 3, dt_day = 4, dt_hour = 0, dt_minute = 5,
          dt_second = 0\<rparr>"
  by code_simp

text \<open>
  The parser takes the separators \<open>0x1F\<close>, \<open>0x85\<close> and \<open>0xA0\<close> for blanks, as
  \<open>datetime.strptime\<close> does on a Python 3 string.
\<close>

lemma strptime_example_separators:
  "strptime (''03/14/24'' @ [CHR 0x1F] @ ''02:15 PM'') =
     Inr \<lparr>dt_year = 2024, dt_month = 3, dt_day = 14, dt_hour = 14, dt_minute = 15,
          dt_second = 0\<rparr>"
  "strptime (''03/14/24'' @ [CHR 0x85] @ ''02:15 PM'') =
     Inr \<lparr>dt_year = 2024, dt_month = 3, dt_day = 14, dt_hour = 14, dt_minute = 15,
          dt_second = 0\<rparr>"
  "strptime (''03/14/24'' @ [CHR 0xA0] @ ''02:15 PM'') =
     Inr \<lparr>dt_year = 2024, dt_month = 3, dt_day = 14, dt_hour = 14, dt_minute = 15,
          dt_second = 0\<rparr>"
  by code_simp+

lemma append_hrefs_map:
  "append_hrefs urls xs = urls @ map (\<lambda>x. get_attribute x ''href'') xs"
  by (induction xs arbitrary: urls) simp_all

lemma map_of_build_path_unknown:
  "page \<notin> {''dashboard'', ''files'', ''file'', ''user-dashboard''} \<Longrightarrow>
   map_of (build_path self args) page = None"
  by (simp add: build_path_def)

section \<open>The claims\<close>

subsection \<open>C1: a failed setup and the sessions acquired and released\<close>

text \<open>
  C1, as the code has it. When the \<open>setUp\<close> of a layer raises, the run records that
  error and ends: the test method does not run and no step of \<open>tearDown\<close> runs, so the
  calls made are those of the failed \<open>setUp\<close>, with one call that acquires a session
  and none that releases one. When \<open>setUp\<close> and every step of \<open>tearDown\<close> return
  normally, the run makes exactly one call that acquires a session and exactly one that
  releases it, and the test method runs once, whether or not the test method raises.
\<close>

theorem run_test_sessions:
  shows "(fst (setUp u l self) = Inl e \<longrightarrow>
            run_test u l body self = ([e], snd (setUp u l self))
          \<and> test_runs (calls (snd (run_test u l body self))) = test_runs (calls self)
          \<and> acquires (calls (snd (run_test u l body self))) = acquires (calls self) + 1
          \<and> releases (calls (snd (run_test u l body self))) = releases (calls self))
       \<and> (fst (setUp u l self) = Inr () \<and>
          fst (tearDown u l (record_call TestMethod (snd (setUp u l self)))) = Inr () \<longrightarrow>
            test_runs (calls (snd (run_test u l body self))) = test_runs (calls self) + 1
          \<and> acquires (calls (snd (run_test u l body self))) = acquires (calls self) + 1
          \<and> releases (calls (snd (run_test u l body self))) = releases (calls self) + 1)"
proof (cases "setUp u l self")
  case (Pair r s1)
  show ?thesis
  proof (cases r)
    case (Inl x)
    with Pair have "run_test u l body self = ([x], s1)"
      by (simp add: run_test_def)
    with Pair Inl setUp_counts [of u l self] show ?thesis
      by simp
  next
    case (Inr y)
    with Pair have "snd (run_test u l body self) =
        snd (tearDown u l (record_call TestMethod s1))"
      by (simp add: run_test_def split: prod.split sum.split)
    with Pair Inr setUp_counts [of u l self]
      tearDown_counts [of u l "record_call TestMethod s1"]
    show ?thesis
      by simp
  qed
qed

text \<open>
  The theorem at a user-layer run whose login raises, and at a project-layer run whose
  collaborators all succeed and whose test method raises.
\<close>

theorem run_test_sessions_witness:
  "test_runs (calls (snd (run_test util_login_fails UserSmokeTest (Inr ()) (fresh None None)))) = 0
   \<and> acquires (calls (snd (run_test util_login_fails UserSmokeTest (Inr ()) (fresh None None)))) = 1
   \<and> releases (calls (snd (run_test util_login_fails UserSmokeTest (Inr ()) (fresh None None)))) = 0
   \<and> test_runs (calls (snd (run_test util_ok ProjectSmokeTest (Inl ValueError) (fresh None None)))) = 1
   \<and> acquires (calls (snd (run_test util_ok ProjectSmokeTest (Inl ValueError) (fresh None None)))) = 1
   \<and> releases (calls (snd (run_test util_ok ProjectSmokeTest (Inl ValueError) (fresh None None)))) = 1"
proof -
  have a: "fst (setUp util_login_fails UserSmokeTest (fresh None None)) =
      Inl (CollaboratorError ''login'')"
    by (simp add: setUp_util_login_fails)
  have b: "fst (setUp util_ok ProjectSmokeTest (fresh None None)) = Inr ()"
    by (simp add: setUp_util_ok)
  have c: "fst (tearDown util_ok ProjectSmokeTest
      (record_call TestMethod (snd (setUp util_ok ProjectSmokeTest (fresh None None))))) = Inr ()"
    by (simp add: setUp_util_ok tearDown_def ProjectSmokeTest_tearDown_def
        UserSmokeTest_tearDown_def SmokeTest_tearDown_def util_ok_sel record_call_def)
  have z: "calls (fresh None None) = []"
    by (simp add: fresh_def)
  have f: "test_runs (calls (snd (run_test util_login_fails UserSmokeTest (Inr ()) (fresh None None)))) = 0
      \<and> acquires (calls (snd (run_test util_login_fails UserSmokeTest (Inr ()) (fresh None None)))) = 1
      \<and> releases (calls (snd (run_test util_login_fails UserSmokeTest (Inr ()) (fresh None None)))) = 0"
    using a z
      run_test_sessions [of util_login_fails UserSmokeTest "fresh None None"
        "CollaboratorError ''login''" "Inr ()"]
    by auto
  have g: "test_runs (calls (snd (run_test util_ok ProjectSmokeTest (Inl ValueError) (fresh None None)))) = 1
      \<and> acquires (calls (snd (run_test util_ok ProjectSmokeTest (Inl ValueError) (fresh None None)))) = 1
      \<and> releases (calls (snd (run_test util_ok ProjectSmokeTest (Inl ValueError) (fresh None None)))) = 1"
    using b c z
      run_test_sessions [of util_ok ProjectSmokeTest "fresh None None" ValueError "Inl ValueError"]
    by simp
  from f g show ?thesis by blast
qed

text \<open>
  The claim as it is stated fails: in a user-layer run the session is acquired, the user
  is created and the login raises; the run ends with the error of the login, and its
  calls hold one acquisition and no release.
\<close>

theorem login_failure_leaves_session_open:
  "fst (run_test util_login_fails UserSmokeTest (Inr ()) (fresh None None)) =
      [CollaboratorError ''login'']
   \<and> calls (snd (run_test util_login_fails UserSmokeTest (Inr ()) (fresh None None))) =
      [LaunchDriver None, CreateUser 1, Login 1 ''smoke@example.com'' ''secret'']
   \<and> acquires (calls (snd (run_test util_login_fails UserSmokeTest (Inr ()) (fresh None None)))) = 1
   \<and> releases (calls (snd (run_test util_login_fails UserSmokeTest (Inr ()) (fresh None None)))) = 0"
  by (simp add: run_test_def setUp_util_login_fails)

subsection \<open>C2: the order of teardown\<close>

text \<open>
  C2, as the code has it. When the \<open>setUp\<close> of a layer has returned normally, it has
  acquired the stages of the layer in the order session, user, project, and
  \<open>tearDown\<close> releases these stages in the reverse order: project deletion, then
  logout, then session release. A release that raises ends \<open>tearDown\<close> there, and the
  stages below it are not released; when every release returns normally, none is
  skipped.
\<close>

theorem tearDown_reverse_order:
  assumes "setUp u l s0 = (Inr (), s1)"
  shows "\<exists>d. driver s1 = Some d
     \<and> remdups_adj (map stage_of (drop (length (calls s0)) (calls s1))) = map Some (stages l)
     \<and> tearDown u l s1 = release_in_order u d (rev (stages l)) s1
     \<and> (list_all (\<lambda>st. release_outcome u d st = Inr ()) (stages l) \<longrightarrow>
          tearDown u l s1 =
            (Inr (), s1\<lparr>calls := calls s1 @ map (release_call d) (rev (stages l))\<rparr>))"
proof -
  from setUp_stage_order [OF assms] obtain d where d: "driver s1 = Some d"
    and o: "remdups_adj (map stage_of (drop (length (calls s0)) (calls s1))) = map Some (stages l)"
    by blast
  have t: "tearDown u l s1 = release_in_order u d (rev (stages l)) s1"
    using d by (rule tearDown_release_in_order)
  have "tearDown u l s1 = (Inr (), s1\<lparr>calls := calls s1 @ map (release_call d) (rev (stages l))\<rparr>)"
    if "list_all (\<lambda>st. release_outcome u d st = Inr ()) (stages l)"
    using that t release_in_order_all [of u d "rev (stages l)" s1] by simp
  with d o t show ?thesis by blast
qed

text \<open>The theorem at the project layer with collaborators that all succeed.\<close>

theorem tearDown_reverse_order_witness:
  "setUp util_ok ProjectSmokeTest (fresh None None) =
     (Inr (), snd (setUp util_ok ProjectSmokeTest (fresh None None)))
   \<and> calls (snd (tearDown util_ok ProjectSmokeTest
        (snd (setUp util_ok ProjectSmokeTest (fresh None None))))) =
      [LaunchDriver None, CreateUser 1, Login 1 ''smoke@example.com'' ''secret'',
       CreateProject 1, GotoProject 1, DeleteProject 1, Logout 1, DriverQuit 1]"
proof -
  have su: "setUp util_ok ProjectSmokeTest (fresh None None) =
     (Inr (), snd (setUp util_ok ProjectSmokeTest (fresh None None)))"
    by (simp add: setUp_util_ok)
  from tearDown_reverse_order [OF su] obtain d where
    d: "driver (snd (setUp util_ok ProjectSmokeTest (fresh None None))) = Some d"
    and t: "list_all (\<lambda>st. release_outcome util_ok d st = Inr ()) (stages ProjectSmokeTest) \<longrightarrow>
       tearDown util_ok ProjectSmokeTest (snd (setUp util_ok ProjectSmokeTest (fresh None None))) =
         (Inr (), (snd (setUp util_ok ProjectSmokeTest (fresh None None)))
            \<lparr>calls := calls (snd (setUp util_ok ProjectSmokeTest (fresh None None))) @
               map (release_call d) (rev (stages ProjectSmokeTest))\<rparr>)"
    by blast
  from d have "d = 1"
    by (simp add: setUp_util_ok)
  with t su show ?thesis
    by (simp add: setUp_util_ok stages_def release_outcome_def release_call_def util_ok_sel)
qed

text \<open>
  The claim as it is stated fails: after a project-layer \<open>setUp\<close> that completed all
  three stages, a project deletion that raises ends \<open>tearDown\<close>; neither the logout
  nor the release of the session is called.
\<close>

theorem delete_failure_skips_logout_and_quit:
  "fst (setUp util_delete_fails ProjectSmokeTest (fresh None None)) = Inr ()
   \<and> fst (tearDown util_delete_fails ProjectSmokeTest
        (snd (setUp util_delete_fails ProjectSmokeTest (fresh None None)))) =
      Inl (CollaboratorError ''delete_project'')
   \<and> calls (snd (tearDown util_delete_fails ProjectSmokeTest
        (snd (setUp util_delete_fails ProjectSmokeTest (fresh None None))))) =
      [LaunchDriver None, CreateUser 1, Login 1 ''smoke@example.com'' ''secret'',
       CreateProject 1, GotoProject 1, DeleteProject 1]"
  by (simp add: setUp_util_delete_fails tearDown_def ProjectSmokeTest_tearDown_def
      util_delete_fails_sel record_call_def)

subsection \<open>C3: an unknown page key\<close>

text \<open>
  C3. For a test instance with a session, and for every project and argument list,
  \<open>goto\<close> with a page key that is none of \<open>dashboard\<close>, \<open>files\<close>, \<open>file\<close> and
  \<open>user-dashboard\<close> raises \<open>KeyError\<close> naming the key, and the instance is as
  before: no navigation is recorded.
\<close>

theorem goto_unknown_key:
  assumes "driver self = Some d"
    and "page \<notin> {''dashboard'', ''files'', ''file'', ''user-dashboard''}"
  shows "goto self page args = (Inl (KeyError page), self)"
  using assms by (simp add: goto_def map_of_build_path_unknown)

theorem goto_unknown_key_witness:
  "goto example_fixture ''unknown-key'' [''report.csv''] =
     (Inl (KeyError ''unknown-key''), example_fixture)"
  using goto_unknown_key [of example_fixture 1 "''unknown-key''" "[''report.csv'']"]
  by (simp add: example_fixture_attrs)

subsection \<open>C4: the address of a file\<close>

text \<open>
  C4. For a project whose address is \<open>base\<close> followed by a slash, and for every file
  name, \<open>goto\<close> with the page key \<open>file\<close> navigates to \<open>base\<close>, \<open>/files/\<close> and the
  name: the slash that ends the project address is dropped before the segments are
  joined, so the join puts a single slash between the address and \<open>files\<close>.
\<close>

theorem goto_file_address:
  assumes "driver self = Some d"
    and "project_url self = Some (base @ ''/'')"
  shows "goto self ''file'' (name # others) =
           (Inr (), record_call (DriverGet d (base @ ''/files/'' @ name)) self)"
  using assms by (simp add: goto_def build_path_def)

theorem goto_file_address_witness:
  "goto example_fixture ''file'' [''report.csv''] =
     (Inr (), record_call
        (DriverGet 1 ''http://localhost:5000/project/abc/files/report.csv'') example_fixture)"
  using goto_file_address [of example_fixture 1 "''http://localhost:5000/project/abc''"
      "''report.csv''" "[]"]
  by (simp add: example_fixture_attrs)

subsection \<open>C5: the example log entry\<close>

text \<open>
  C5. Reading a page whose first log fragment has the text ``Created file report.csv'',
  one link to \<open>/project/abc/files/report.csv\<close> and the timestamp text
  ``03/14/24 02:15 PM'' gives an entry whose time is 14 March 2024, 14:15:00, and whose
  list of addresses is that one link.
\<close>

theorem get_log_example:
  "get_log (example_log # others) (self\<lparr>driver := Some d\<rparr>) =
     Inr \<lparr>log_text = ''Created file report.csv'',
          log_url = [Some ''/project/abc/files/report.csv''],
          log_time = \<lparr>dt_year = 2024, dt_month = 3, dt_day = 14, dt_hour = 14,
                       dt_minute = 15, dt_second = 0\<rparr>\<rparr>"
  by (simp add: get_log_def LogEntry_init_def find_element_def example_log_def
      strptime_example get_attribute_def)

subsection \<open>C6: a timestamp that is not of the format\<close>



subsection \<open>C7: the fields of a log entry\<close>

text \<open>
  C7. For a test instance with a session and a page whose first log fragment has an
  entry and a timestamp text that the parser accepts, \<open>get_log\<close> returns the text of
  the entry, the \<open>href\<close> of every link of the entry in document order (the empty list
  when the entry has no link) and the time parsed.
\<close>

theorem get_log_fields:
  assumes "driver self = Some d"
    and "dl_dd frag = entry # dds"
    and "dl_dt frag = stamp # dts"
    and "strptime stamp = Inr t"
  shows "get_log (frag # others) self =
     Inr \<lparr>log_text = dd_text entry,
          log_url = map (\<lambda>a. get_attribute a ''href'') (dd_anchors entry),
          log_time = t\<rparr>"
  using assms
  by (simp add: get_log_def LogEntry_init_def find_element_def append_hrefs_map)

theorem get_log_fields_witness:
  "get_log [example_log_no_links, example_log] example_fixture =
     Inr \<lparr>log_text = ''Created project'', log_url = [],
          log_time = \<lparr>dt_year = 1969, dt_month = 3, dt_day = 4, dt_hour = 0,
                       dt_minute = 5, dt_second = 0\<rparr>\<rparr>"
  using get_log_fields [of example_fixture 1 example_log_no_links
      "\<lparr>dd_text = ''Created project'', dd_anchors = []\<rparr>" "[]" "''3/4/69 12:05 am''" "[]"
      "\<lparr>dt_year = 1969, dt_month = 3, dt_day = 4, dt_hour = 0, dt_minute = 5, dt_second = 0\<rparr>"
      "[example_log]"]
  by (simp add: example_fixture_attrs example_log_no_links_def strptime_example_am)

subsection \<open>C9: a session is released by \<open>quit\<close>\<close>

text \<open>
  C9. The \<open>tearDown\<close> of the session layer calls \<open>WebDriver.quit()\<close> on the session;
  a \<open>tearDown\<close> of any layer that returns normally ends with that call; and neither
  a \<open>tearDown\<close> nor a whole run ever adds a call of \<open>WebDriver.close()\<close>.
\<close>

theorem session_release_is_quit:
  shows "(driver self = Some d \<longrightarrow>
            SmokeTest_tearDown self = (Inr (), record_call (DriverQuit d) self))
       \<and> (driver self = Some d \<and> fst (tearDown u l self) = Inr () \<longrightarrow>
            last (calls (snd (tearDown u l self))) = DriverQuit d)
       \<and> (DriverClose x \<in> set (calls (snd (tearDown u l self)))) = (DriverClose x \<in> set (calls self))
       \<and> (DriverClose x \<in> set (calls (snd (run_test u l body self)))) = (DriverClose x \<in> set (calls self))"
  using tearDown_ends_with_quit [of self d u l] tearDown_no_close [of x u l self]
    run_test_no_close [of x u l body self]
  by (simp add: SmokeTest_tearDown_def)

theorem session_release_is_quit_witness:
  "SmokeTest_tearDown (snd (setUp util_ok ProjectSmokeTest (fresh None None))) =
     (Inr (), record_call (DriverQuit 1) (snd (setUp util_ok ProjectSmokeTest (fresh None None))))
   \<and> last (calls (snd (tearDown util_ok ProjectSmokeTest
        (snd (setUp util_ok ProjectSmokeTest (fresh None None)))))) = DriverQuit 1
   \<and> DriverClose 1 \<notin> set (calls (snd (run_test util_ok ProjectSmokeTest (Inr ()) (fresh None None))))"
proof -
  have d: "driver (snd (setUp util_ok ProjectSmokeTest (fresh None None))) = Some 1"
    by (simp add: setUp_util_ok)
  have t: "fst (tearDown util_ok ProjectSmokeTest
      (snd (setUp util_ok ProjectSmokeTest (fresh None None)))) = Inr ()"
    by (simp add: setUp_util_ok tearDown_def ProjectSmokeTest_tearDown_def
        UserSmokeTest_tearDown_def SmokeTest_tearDown_def util_ok_sel record_call_def)
  have z: "calls (fresh None None) = []"
    by (simp add: fresh_def)
  from d t z
    session_release_is_quit [of "snd (setUp util_ok ProjectSmokeTest (fresh None None))" 1
      util_ok ProjectSmokeTest 1 "Inr ()"]
    session_release_is_quit [of "fresh None None" 1 util_ok ProjectSmokeTest 1 "Inr ()"]
  show ?thesis by simp
qed

subsection \<open>C10: only the rule of the selected key is evaluated\<close>

text \<open>
  C10. For the page keys \<open>dashboard\<close>, \<open>files\<close> and \<open>user-dashboard\<close> the outcome
  of \<open>goto\<close> does not depend on the positional arguments: with a session and a
  project the first two navigate to the project address and to its \<open>files\<close> page
  whatever the arguments and whether or not the instance has a site root, and with a
  session and a site root the third navigates to the dashboard of the site. With the
  page key \<open>file\<close> and no positional argument, \<open>goto\<close> raises \<open>IndexError\<close> and
  records no navigation.
\<close>

theorem goto_selected_rule_only:
  shows "(page \<in> {''dashboard'', ''files'', ''user-dashboard''} \<longrightarrow>
            goto self page args = goto self page [])
       \<and> (driver self = Some d \<and> project_url self = Some url \<longrightarrow>
            goto self ''dashboard'' args = (Inr (), record_call (DriverGet d url) self)
          \<and> goto self ''files'' args =
              (Inr (), record_call (DriverGet d (butlast url @ ''/files'')) self)
          \<and> goto self ''file'' [] = (Inl IndexError, self))
       \<and> (driver self = Some d \<and> site_root self = Some root \<longrightarrow>
            goto self ''user-dashboard'' args =
              (Inr (), record_call (DriverGet d (root @ ''/dashboard'')) self))"
proof -
  have indep: "goto self page args = goto self page []"
    if "page \<in> {''dashboard'', ''files'', ''user-dashboard''}"
    using that by (auto simp add: goto_def build_path_def split: option.split)
  have set_up: "goto self ''dashboard'' args = (Inr (), record_call (DriverGet d url) self)
      \<and> goto self ''files'' args =
          (Inr (), record_call (DriverGet d (butlast url @ ''/files'')) self)
      \<and> goto self ''file'' [] = (Inl IndexError, self)"
    if "driver self = Some d" and "project_url self = Some url"
    using that by (simp add: goto_def build_path_def)
  have user: "goto self ''user-dashboard'' args =
      (Inr (), record_call (DriverGet d (root @ ''/dashboard'')) self)"
    if "driver self = Some d" and "site_root self = Some root"
    using that by (simp add: goto_def build_path_def)
  from indep set_up user show ?thesis by blast
qed

theorem goto_selected_rule_only_witness:
  "goto example_fixture ''dashboard'' [''a'', ''b''] = goto example_fixture ''dashboard'' []
   \<and> goto example_fixture ''dashboard'' [''a'', ''b''] =
       (Inr (), record_call (DriverGet 1 ''http://localhost:5000/project/abc/'') example_fixture)
   \<and> goto example_fixture ''files'' [''a'', ''b''] =
       (Inr (), record_call (DriverGet 1 ''http://localhost:5000/project/abc/files'') example_fixture)
   \<and> goto example_fixture ''file'' [] = (Inl IndexError, example_fixture)
   \<and> goto example_fixture ''user-dashboard'' [''a'', ''b''] =
       (Inr (), record_call (DriverGet 1 ''http://localhost:5000/dashboard'') example_fixture)"
  using goto_selected_rule_only [of "''dashboard''" example_fixture "[''a'', ''b'']" 1
      "''http://localhost:5000/project/abc/''" "''http://localhost:5000''"]
  by (auto simp add: example_fixture_attrs)

end
